theory Spec2Isabelle
  imports Main
begin

section \<open>The development server \<^verbatim>\<open>src/app/devserver.py\<close>\<close>

text \<open>
  The script is seventeen lines: at module level it changes the working directory to
  \<^verbatim>\<open><program directory>/../dist\<close>, it defines \<^verbatim>\<open>RequestHandler\<close>, a subclass of
  \<^verbatim>\<open>SimpleHTTPRequestHandler\<close> that overrides \<^verbatim>\<open>end_headers\<close>, and under the
  \<^verbatim>\<open>__main__\<close> guard it prints a message and calls \<^verbatim>\<open>http.server.test\<close>.
  Everything else it does is done by the methods it inherits and the functions it calls
  (CPython's \<^verbatim>\<open>http/server.py\<close>, \<^verbatim>\<open>socketserver.py\<close>, \<^verbatim>\<open>posixpath.py\<close>), so those are
  embedded here as well, each under the name it has there, from the CPython 3.11 sources.
  What the library takes from its platform (the file system, the name resolver, the MIME
  table, the clock, the HTML templates) is a field of the record \<open>world\<close>, and every theorem
  holds for every world.

  Python's \<^verbatim>\<open>str\<close> and \<^verbatim>\<open>bytes\<close> are both \<open>string\<close>: the handler decodes and encodes with
  Latin-1, which is the identity on 8-bit characters.
\<close>

subsection \<open>Strings\<close>

definition CRLF :: string where
  "CRLF = [CHR 0x0D, CHR 0x0A]"

text \<open>\<^verbatim>\<open>str.lower\<close> on the Latin-1 range.\<close>

definition lower_char :: "char \<Rightarrow> char" where
  "lower_char c =
     (let n = (of_char c :: nat)
      in if (65 \<le> n \<and> n \<le> 90) \<or> (192 \<le> n \<and> n \<le> 222 \<and> n \<noteq> 215)
         then char_of (n + 32) else c)"

definition lower :: "string \<Rightarrow> string" where
  "lower s = map lower_char s"

text \<open>\<^verbatim>\<open>str.isspace\<close> on the Latin-1 range, and \<^verbatim>\<open>str.rstrip()\<close>.\<close>

definition isspace :: "char \<Rightarrow> bool" where
  "isspace c =
     (let n = (of_char c :: nat)
      in (9 \<le> n \<and> n \<le> 13) \<or> (28 \<le> n \<and> n \<le> 32) \<or> n = 133 \<or> n = 160)"

definition rstrip :: "string \<Rightarrow> string" where
  "rstrip s = rev (dropWhile isspace (rev s))"

definition rstrip_char :: "char \<Rightarrow> string \<Rightarrow> string" where
  "rstrip_char c s = rev (dropWhile (\<lambda>x. x = c) (rev s))"

definition startswith :: "string \<Rightarrow> string \<Rightarrow> bool" where
  "startswith s pre = (take (length pre) s = pre)"

definition endswith :: "string \<Rightarrow> string \<Rightarrow> bool" where
  "endswith s suf = (length suf \<le> length s \<and> drop (length s - length suf) s = suf)"

text \<open>\<^verbatim>\<open>s.split(c)\<close>: the pieces between the separators, empty pieces kept.\<close>

fun split_sep :: "char \<Rightarrow> string \<Rightarrow> string list" where
  "split_sep c [] = [[]]"
| "split_sep c (x # xs) =
     (if x = c then [] # split_sep c xs
      else (case split_sep c xs of
              [] \<Rightarrow> [[x]]
            | w # ws \<Rightarrow> (x # w) # ws))"

text \<open>\<^verbatim>\<open>sep.join(parts)\<close>.\<close>

fun join_sep :: "string \<Rightarrow> string list \<Rightarrow> string" where
  "join_sep sep [] = []"
| "join_sep sep [w] = w"
| "join_sep sep (w # ws) = w @ sep @ join_sep sep ws"

text \<open>\<^verbatim>\<open>str(n)\<close> and \<^verbatim>\<open>"%d" % n\<close> for a natural number.\<close>

definition digit :: "nat \<Rightarrow> char" where
  "digit d = ''0123456789'' ! d"

function str_nat :: "nat \<Rightarrow> string" where
  "str_nat n =
     (if n < 10 then [digit n]
      else str_nat (n div 10) @ [digit (n mod 10)])"
  by pat_completeness auto
termination
  by (relation "measure (\<lambda>n. n)") auto

declare str_nat.simps [simp del]

subsection \<open>\<^verbatim>\<open>posixpath\<close>\<close>

text \<open>\<^verbatim>\<open>posixpath.join\<close>, one step of its loop and the loop.\<close>

definition join_step :: "string \<Rightarrow> string \<Rightarrow> string" where
  "join_step path b =
     (if startswith b ''/'' then b
      else if path = [] \<or> endswith path ''/'' then path @ b
      else path @ ''/'' @ b)"

definition os_path_join :: "string \<Rightarrow> string list \<Rightarrow> string" where
  "os_path_join a p = foldl join_step a p"

text \<open>
  \<^verbatim>\<open>posixpath.dirname\<close>: the head is everything up to the last separator; trailing
  separators are stripped from it unless it consists of separators only.
\<close>

definition dirname :: "string \<Rightarrow> string" where
  "dirname p =
     (let head = rev (dropWhile (\<lambda>c. c \<noteq> CHR ''/'') (rev p))
      in if head \<noteq> [] \<and> head \<noteq> replicate (length head) (CHR ''/'')
         then rstrip_char (CHR ''/'') head else head)"

text \<open>\<^verbatim>\<open>posixpath.normpath\<close>: the loop over the components, then the whole function.\<close>

definition normpath_step :: "nat \<Rightarrow> string list \<Rightarrow> string \<Rightarrow> string list" where
  "normpath_step initial_slashes new_comps part =
     (if part = [] \<or> part = ''.'' then new_comps
      else if part \<noteq> ''..'' \<or> (initial_slashes = 0 \<and> new_comps = [])
              \<or> (new_comps \<noteq> [] \<and> last new_comps = ''..'')
      then new_comps @ [part]
      else if new_comps \<noteq> [] then butlast new_comps
      else new_comps)"

definition normpath :: "string \<Rightarrow> string" where
  "normpath p =
     (if p = [] then ''.''
      else
        let initial_slashes =
              (if startswith p ''/''
               then (if startswith p ''//'' \<and> \<not> startswith p ''///'' then 2 else 1)
               else (0::nat));
            comps = foldl (normpath_step initial_slashes) [] (split_sep (CHR ''/'') p);
            joined = replicate initial_slashes (CHR ''/'') @ join_sep ''/'' comps
        in if joined = [] then ''.'' else joined)"

text \<open>\<^verbatim>\<open>posixpath.abspath\<close>; the working directory is its first argument.\<close>

definition abspath :: "string \<Rightarrow> string \<Rightarrow> string" where
  "abspath getcwd p = normpath (if startswith p ''/'' then p else os_path_join getcwd [p])"

subsection \<open>The platform\<close>

text \<open>
  What the kernel finds at a path: a regular file (its bytes, its modification time in
  whole seconds, whether this process may open it for reading) or a directory (its entries,
  whether this process may read it, whether it may search it).
\<close>

datatype node =
    File (contents: string) (mtime: int) (readable: bool)
  | Dir (entries: "string list") (listable: bool) (searchable: bool)

datatype os_errno = ENOENT | ENOTDIR | EISDIR | EACCES | EADDRINUSE

datatype py_error = OSError os_errno | AttributeError

record world =
  fs :: "string \<Rightarrow> node option"
  canonical :: "string \<Rightarrow> string"
  busy_ports :: "nat set"
  wildcard_host :: string
  unquote :: "string \<Rightarrow> string"
  guess_type :: "string \<Rightarrow> string"
  responses :: "nat \<Rightarrow> (string \<times> string) option"
  version_string :: string
  date_time_string :: "int option \<Rightarrow> string"
  error_page :: "nat \<Rightarrow> string \<Rightarrow> string \<Rightarrow> string"
  ims_utc :: "string \<Rightarrow> int option"
  urlsplit_path :: "string \<Rightarrow> string"
  redirect_url :: "string \<Rightarrow> string"
  listing_page :: "string \<Rightarrow> string \<Rightarrow> string list \<Rightarrow> string"
  filesystemencoding :: string

text \<open>
  \<^item> \<open>fs\<close>: the file system, read-only; \<open>canonical p\<close> is the name \<^verbatim>\<open>os.getcwd()\<close> reports
    after \<^verbatim>\<open>os.chdir(p)\<close>.
  \<^item> \<open>busy_ports\<close>: the ports on which \<^verbatim>\<open>bind\<close> answers \<^verbatim>\<open>EADDRINUSE\<close>;
    \<open>wildcard_host\<close>: the first address \<^verbatim>\<open>getaddrinfo(None, port, AI_PASSIVE)\<close> returns.
  \<^item> \<open>unquote\<close>: \<^verbatim>\<open>urllib.parse.unquote\<close> as \<^verbatim>\<open>translate_path\<close> calls it (with its
    fallback on \<^verbatim>\<open>UnicodeDecodeError\<close>); \<open>guess_type\<close>: the handler's \<^verbatim>\<open>guess_type\<close>,
    a function of the path.
  \<^item> \<open>responses\<close>: the table \<^verbatim>\<open>BaseHTTPRequestHandler.responses\<close>;
    \<open>error_page code message explain\<close>: the encoded HTML body of \<^verbatim>\<open>send_error\<close>.
  \<^item> \<open>ims_utc v\<close>: the instant an \<^verbatim>\<open>If-Modified-Since\<close> value denotes when it parses and
    its zone is UTC or absent, \<open>None\<close> otherwise (\<^verbatim>\<open>send_head\<close> treats an ill-formed
    value and a value in another zone alike).
  \<^item> \<open>urlsplit_path\<close>, \<open>redirect_url\<close>: the path component of \<^verbatim>\<open>urlsplit(self.path)\<close>
    and the URL rebuilt with a slash added; \<open>listing_page path request_path names\<close>: the
    encoded directory listing.
\<close>

definition os_path_isdir :: "world \<Rightarrow> string \<Rightarrow> bool" where
  "os_path_isdir w p = (case fs w p of Some (Dir es l s) \<Rightarrow> True | _ \<Rightarrow> False)"

definition os_path_isfile :: "world \<Rightarrow> string \<Rightarrow> bool" where
  "os_path_isfile w p = (case fs w p of Some (File c m r) \<Rightarrow> True | _ \<Rightarrow> False)"

text \<open>\<^verbatim>\<open>open(path, 'rb')\<close>: the file object is the pair of its bytes and its \<^verbatim>\<open>fstat\<close> time.\<close>

definition open_rb :: "world \<Rightarrow> string \<Rightarrow> py_error + (string \<times> int)" where
  "open_rb w p =
     (case fs w p of
        None \<Rightarrow> Inl (OSError ENOENT)
      | Some (Dir es l s) \<Rightarrow> Inl (OSError EISDIR)
      | Some (File c m r) \<Rightarrow> if r then Inr (c, m) else Inl (OSError EACCES))"

definition os_listdir :: "world \<Rightarrow> string \<Rightarrow> py_error + string list" where
  "os_listdir w p =
     (case fs w p of
        None \<Rightarrow> Inl (OSError ENOENT)
      | Some (File c m r) \<Rightarrow> Inl (OSError ENOTDIR)
      | Some (Dir es l s) \<Rightarrow> if l then Inr es else Inl (OSError EACCES))"


text \<open>\<^verbatim>\<open>os.chdir\<close> needs a directory that the process may search.\<close>

definition chdir_errno :: "world \<Rightarrow> string \<Rightarrow> os_errno option" where
  "chdir_errno w p =
     (case fs w p of
        None \<Rightarrow> Some ENOENT
      | Some (File c m r) \<Rightarrow> Some ENOTDIR
      | Some (Dir es l s) \<Rightarrow> if s then None else Some EACCES)"

subsection \<open>The process\<close>

text \<open>
  The effects of the process on the outside, in the order in which they happen: the
  working directory changed, a line written to standard output, and the life of the
  server's socket.
\<close>

datatype event =
    Chdir string
  | Print string
  | SocketCreated
  | Bound string nat
  | Listening
  | SocketClosed

datatype socket_state = Unbound | BoundTo string nat | Listens string nat | Closed

record process =
  cwd :: string
  argv :: "string list"
  environ :: "(string \<times> string) list"
  sock :: "socket_state option"
  trace :: "event list"

definition os_chdir :: "world \<Rightarrow> string \<Rightarrow> process \<Rightarrow> py_error option \<times> process" where
  "os_chdir w p s =
     (case chdir_errno w p of
        Some e \<Rightarrow> (Some (OSError e), s)
      | None \<Rightarrow> (None, s\<lparr>cwd := canonical w p, trace := trace s @ [Chdir p]\<rparr>))"

definition py_print :: "string \<Rightarrow> process \<Rightarrow> process" where
  "py_print line s = s\<lparr>trace := trace s @ [Print line]\<rparr>"

subsection \<open>\<^verbatim>\<open>socketserver.TCPServer\<close> and \<^verbatim>\<open>http.server.test\<close>\<close>

text \<open>
  \<^verbatim>\<open>TCPServer.server_bind\<close> (through \<^verbatim>\<open>HTTPServer.server_bind\<close>): \<^verbatim>\<open>socket.bind\<close>
  raises \<^verbatim>\<open>OSError\<close> when the port is in use.
\<close>

definition server_bind :: "world \<Rightarrow> string \<times> nat \<Rightarrow> process \<Rightarrow> py_error option \<times> process" where
  "server_bind w addr s =
     (if snd addr \<in> busy_ports w then (Some (OSError EADDRINUSE), s)
      else (None, s\<lparr>sock := Some (BoundTo (fst addr) (snd addr)),
                     trace := trace s @ [Bound (fst addr) (snd addr)]\<rparr>))"

definition server_activate :: "string \<times> nat \<Rightarrow> process \<Rightarrow> process" where
  "server_activate addr s =
     s\<lparr>sock := Some (Listens (fst addr) (snd addr)), trace := trace s @ [Listening]\<rparr>"

definition server_close :: "process \<Rightarrow> process" where
  "server_close s = s\<lparr>sock := Some Closed, trace := trace s @ [SocketClosed]\<rparr>"

text \<open>
  \<^verbatim>\<open>TCPServer.__init__\<close> with \<^verbatim>\<open>bind_and_activate=True\<close>: the socket is created, then
  bound and activated inside \<^verbatim>\<open>try\<close>; on an exception the socket is closed and the
  exception raised again.
\<close>

definition TCPServer_init :: "world \<Rightarrow> string \<times> nat \<Rightarrow> process \<Rightarrow> py_error option \<times> process" where
  "TCPServer_init w addr s =
     (let s1 = s\<lparr>sock := Some Unbound, trace := trace s @ [SocketCreated]\<rparr>
      in case server_bind w addr s1 of
           (Some e, s2) \<Rightarrow> (Some e, server_close s2)
         | (None, s2) \<Rightarrow> (None, server_activate addr s2))"

text \<open>
  How a run of the module ends: with an exception nobody catches, with the end of the
  module body, or inside \<^verbatim>\<open>serve_forever\<close>, which runs until it is interrupted. The
  interpreter turns the first into exit status 1 and the second into exit status 0.
\<close>

datatype outcome = Raised py_error | Finished | Serving

fun exit_status :: "outcome \<Rightarrow> nat option" where
  "exit_status (Raised e) = Some 1"
| "exit_status Finished = Some 0"
| "exit_status Serving = None"

text \<open>
  \<^verbatim>\<open>test(HandlerClass, ServerClass, protocol="HTTP/1.0", port, bind=None)\<close>: the address
  comes from \<^verbatim>\<open>_get_best_family(None, port)\<close>, the server is constructed, the line
  \<^verbatim>\<open>Serving HTTP on ...\<close> is printed and \<^verbatim>\<open>serve_forever\<close> entered.
\<close>

definition serving_line :: "string \<Rightarrow> nat \<Rightarrow> string" where
  "serving_line host port =
     ''Serving HTTP on '' @ host @ '' port '' @ str_nat port @ '' (http://''
       @ (if CHR '':'' \<in> set host then ''['' @ host @ '']'' else host)
       @ '':'' @ str_nat port @ ''/) ...''"

definition test :: "world \<Rightarrow> nat \<Rightarrow> process \<Rightarrow> outcome \<times> process" where
  "test w port s =
     (let addr = (wildcard_host w, port)
      in case TCPServer_init w addr s of
           (Some e, s1) \<Rightarrow> (Raised e, s1)
         | (None, s1) \<Rightarrow> (Serving, py_print (serving_line (fst addr) (snd addr)) s1))"

subsection \<open>The module body of \<^verbatim>\<open>devserver.py\<close>\<close>

text \<open>
  \<open>name\<close> is \<^verbatim>\<open>__name__\<close> and \<open>file\<close> is \<^verbatim>\<open>__file__\<close>. Lines 6 to 8 run whenever the
  module is executed; lines 16 to 18 only when it is the main program.
\<close>

definition dist_path :: "string \<Rightarrow> process \<Rightarrow> string" where
  "dist_path file s =
     (let current_dir = dirname (abspath (cwd s) file)
      in os_path_join current_dir [''..'', ''dist''])"

definition banner :: string where
  "banner = ''===> Open your browser at http://localhost:8000/''"

definition devserver :: "world \<Rightarrow> string \<Rightarrow> string \<Rightarrow> process \<Rightarrow> outcome \<times> process" where
  "devserver w name file s =
     (case os_chdir w (dist_path file s) s of
        (Some e, s1) \<Rightarrow> (Raised e, s1)
      | (None, s1) \<Rightarrow>
          if name = ''__main__'' then test w 8000 (py_print banner s1)
          else (Finished, s1))"


subsection \<open>\<^verbatim>\<open>BaseHTTPRequestHandler\<close>\<close>

text \<open>
  The handler as \<^verbatim>\<open>parse_request\<close> leaves it: the words of the request line, the request
  headers, the directory taken at construction, the header buffer (\<open>None\<close> while the
  attribute \<^verbatim>\<open>_headers_buffer\<close> does not exist), the bytes written to the connection and
  the keep-alive flag. A request line of two words (\<^verbatim>\<open>GET /path\<close>) leaves
  \<open>request_version\<close> at its default \<^verbatim>\<open>HTTP/0.9\<close>, and so does a request line whose
  version \<^verbatim>\<open>parse_request\<close> rejects. Writes to the connection succeed, and the log
  lines written to standard error are left out.
\<close>

record handler =
  request_version :: string
  protocol_version :: string
  command :: "string option"
  path :: string
  headers :: "(string \<times> string) list"
  directory :: string
  headers_buffer :: "string list option"
  wfile :: string
  close_connection :: bool

definition pending :: "handler \<Rightarrow> string list" where
  "pending h = (case headers_buffer h of None \<Rightarrow> [] | Some b \<Rightarrow> b)"

definition status_line :: "string \<Rightarrow> nat \<Rightarrow> string \<Rightarrow> string" where
  "status_line version code message = version @ '' '' @ str_nat code @ '' '' @ message @ CRLF"

definition header_line :: "string \<Rightarrow> string \<Rightarrow> string" where
  "header_line keyword v = keyword @ '': '' @ v @ CRLF"

text \<open>The reason phrase of a code in the table \<^verbatim>\<open>responses\<close>, empty for a code it lacks.\<close>

definition short_message :: "world \<Rightarrow> nat \<Rightarrow> string" where
  "short_message w code =
     (case responses w code of Some (shortmsg, longmsg) \<Rightarrow> shortmsg | None \<Rightarrow> [])"

definition send_response_only :: "world \<Rightarrow> handler \<Rightarrow> nat \<Rightarrow> string option \<Rightarrow> handler" where
  "send_response_only w h code message =
     (if request_version h \<noteq> ''HTTP/0.9'' then
        (let message1 = (case message of Some m \<Rightarrow> m | None \<Rightarrow> short_message w code)
         in h\<lparr>headers_buffer :=
                Some (pending h @ [status_line (protocol_version h) code message1])\<rparr>)
      else h)"

definition send_header :: "handler \<Rightarrow> string \<Rightarrow> string \<Rightarrow> handler" where
  "send_header h keyword v =
     (let h1 = (if request_version h \<noteq> ''HTTP/0.9''
                then h\<lparr>headers_buffer := Some (pending h @ [header_line keyword v])\<rparr>
                else h)
      in if lower keyword = ''connection'' then
           (if lower v = ''close'' then h1\<lparr>close_connection := True\<rparr>
            else if lower v = ''keep-alive'' then h1\<lparr>close_connection := False\<rparr>
            else h1)
         else h1)"

definition flush_headers :: "handler \<Rightarrow> handler" where
  "flush_headers h =
     (case headers_buffer h of
        None \<Rightarrow> h
      | Some b \<Rightarrow> h\<lparr>wfile := wfile h @ concat b, headers_buffer := Some []\<rparr>)"

text \<open>
  \<^verbatim>\<open>BaseHTTPRequestHandler.end_headers\<close>: appending to a buffer that does not exist is
  an \<^verbatim>\<open>AttributeError\<close>.
\<close>

definition end_headers :: "handler \<Rightarrow> py_error + handler" where
  "end_headers h =
     (if request_version h \<noteq> ''HTTP/0.9'' then
        (case headers_buffer h of
           None \<Rightarrow> Inl AttributeError
         | Some b \<Rightarrow> Inr (flush_headers (h\<lparr>headers_buffer := Some (b @ [CRLF])\<rparr>)))
      else Inr h)"

definition send_response :: "world \<Rightarrow> handler \<Rightarrow> nat \<Rightarrow> string option \<Rightarrow> handler" where
  "send_response w h code message =
     send_header
       (send_header (send_response_only w h code message) ''Server'' (version_string w))
       ''Date'' (date_time_string w None)"

text \<open>
  The methods below call \<^verbatim>\<open>self.end_headers()\<close>, which a subclass may override: the
  method that \<^verbatim>\<open>self\<close> resolves it to is their argument \<open>eh\<close>.
\<close>

definition error_content_type :: string where
  "error_content_type = ''text/html;charset=utf-8''"

definition send_error ::
  "world \<Rightarrow> (handler \<Rightarrow> py_error + handler) \<Rightarrow> handler \<Rightarrow> nat \<Rightarrow> string option \<Rightarrow> string option
     \<Rightarrow> py_error + handler" where
  "send_error w eh h code message explain =
     (let (shortmsg, longmsg) =
            (case responses w code of Some sl \<Rightarrow> sl | None \<Rightarrow> (''???'', ''???''));
          message1 = (case message of None \<Rightarrow> shortmsg | Some m \<Rightarrow> m);
          explain1 = (case explain of None \<Rightarrow> longmsg | Some e \<Rightarrow> e);
          h1 = send_response w h code (Some message1);
          h2 = send_header h1 ''Connection'' ''close'';
          body = (if code \<ge> 200 \<and> code \<notin> {204, 205, 304}
                  then Some (error_page w code message1 explain1) else None);
          h3 = (case body of
                  None \<Rightarrow> h2
                | Some b \<Rightarrow>
                    send_header (send_header h2 ''Content-Type'' error_content_type)
                      ''Content-Length'' (str_nat (length b)))
      in case eh h3 of
           Inl e \<Rightarrow> Inl e
         | Inr h4 \<Rightarrow>
             (case body of
                Some b \<Rightarrow>
                  if command h4 \<noteq> Some ''HEAD'' \<and> b \<noteq> []
                  then Inr (h4\<lparr>wfile := wfile h4 @ b\<rparr>) else Inr h4
              | None \<Rightarrow> Inr h4))"

subsection \<open>\<^verbatim>\<open>SimpleHTTPRequestHandler\<close>\<close>

text \<open>
  \<^verbatim>\<open>translate_path\<close>: query and fragment are dropped, the path is unquoted and
  normalised, and its words are joined to the directory one at a time; a word that has
  a directory part or is \<^verbatim>\<open>.\<close> or \<^verbatim>\<open>..\<close> is skipped.
\<close>

definition translate_step :: "string \<Rightarrow> string \<Rightarrow> string" where
  "translate_step p word =
     (if dirname word \<noteq> [] \<or> word = ''.'' \<or> word = ''..'' then p
      else os_path_join p [word])"

definition translate_path :: "world \<Rightarrow> handler \<Rightarrow> string \<Rightarrow> string" where
  "translate_path w h p =
     (let p1 = takeWhile (\<lambda>c. c \<noteq> CHR ''?'') p;
          p2 = takeWhile (\<lambda>c. c \<noteq> CHR ''#'') p1;
          trailing_slash = endswith (rstrip p2) ''/'';
          p3 = normpath (unquote w p2);
          ws = filter (\<lambda>x. x \<noteq> []) (split_sep (CHR ''/'') p3);
          r = foldl translate_step (directory h) ws
      in if trailing_slash then r @ ''/'' else r)"

text \<open>
  The request headers are a \<^verbatim>\<open>Message\<close>: names compare without case, and the first
  field of a name is the one returned.
\<close>

definition header_get :: "(string \<times> string) list \<Rightarrow> string \<Rightarrow> string option" where
  "header_get hs name = map_of (map (\<lambda>(k, v). (lower k, v)) hs) (lower name)"

definition list_directory ::
  "world \<Rightarrow> (handler \<Rightarrow> py_error + handler) \<Rightarrow> handler \<Rightarrow> string
     \<Rightarrow> py_error + (string option \<times> handler)" where
  "list_directory w eh h p =
     (case os_listdir w p of
        Inl e \<Rightarrow>
          (case send_error w eh h 404 (Some ''No permission to list directory'') None of
             Inl e1 \<Rightarrow> Inl e1
           | Inr h1 \<Rightarrow> Inr (None, h1))
      | Inr names \<Rightarrow>
          (let encoded = listing_page w p (path h) names;
               h1 = send_response w h 200 None;
               h2 = send_header h1 ''Content-type''
                      (''text/html; charset='' @ filesystemencoding w);
               h3 = send_header h2 ''Content-Length'' (str_nat (length encoded))
           in case eh h3 of
                Inl e \<Rightarrow> Inl e
              | Inr h4 \<Rightarrow> Inr (Some encoded, h4)))"

text \<open>
  \<^verbatim>\<open>send_head\<close>. The result is the file object to copy (its bytes) or \<open>None\<close>, with the
  handler after the headers were sent.
\<close>

text \<open>
  The test of \<^verbatim>\<open>send_head\<close> for a conditional request: an \<^verbatim>\<open>If-Modified-Since\<close> header,
  no \<^verbatim>\<open>If-None-Match\<close> header, a date that parses in UTC, and a file not modified after it.
\<close>

definition not_modified :: "world \<Rightarrow> handler \<Rightarrow> int \<Rightarrow> bool" where
  "not_modified w h st_mtime =
     (case header_get (headers h) ''If-Modified-Since'' of
        None \<Rightarrow> False
      | Some v \<Rightarrow>
          if header_get (headers h) ''If-None-Match'' \<noteq> None then False
          else (case ims_utc w v of
                  None \<Rightarrow> False
                | Some ims \<Rightarrow> st_mtime \<le> ims))"

definition send_file_head ::
  "world \<Rightarrow> (handler \<Rightarrow> py_error + handler) \<Rightarrow> handler \<Rightarrow> string
     \<Rightarrow> py_error + (string option \<times> handler)" where
  "send_file_head w eh h p =
     (let ctype = guess_type w p
      in if endswith p ''/'' then
           (case send_error w eh h 404 (Some ''File not found'') None of
              Inl e \<Rightarrow> Inl e
            | Inr h1 \<Rightarrow> Inr (None, h1))
         else
           (case open_rb w p of
              Inl e \<Rightarrow>
                (case send_error w eh h 404 (Some ''File not found'') None of
                   Inl e1 \<Rightarrow> Inl e1
                 | Inr h1 \<Rightarrow> Inr (None, h1))
            | Inr (bytes, st_mtime) \<Rightarrow>
                if not_modified w h st_mtime then
                  (case eh (send_response w h 304 None) of
                     Inl e \<Rightarrow> Inl e
                   | Inr h1 \<Rightarrow> Inr (None, h1))
                else
                  (let h1 = send_response w h 200 None;
                       h2 = send_header h1 ''Content-type'' ctype;
                       h3 = send_header h2 ''Content-Length'' (str_nat (length bytes));
                       h4 = send_header h3 ''Last-Modified''
                              (date_time_string w (Some st_mtime))
                   in case eh h4 of
                        Inl e \<Rightarrow> Inl e
                      | Inr h5 \<Rightarrow> Inr (Some bytes, h5))))"

definition send_head ::
  "world \<Rightarrow> (handler \<Rightarrow> py_error + handler) \<Rightarrow> handler
     \<Rightarrow> py_error + (string option \<times> handler)" where
  "send_head w eh h =
     (let p = translate_path w h (path h)
      in if os_path_isdir w p then
           (if \<not> endswith (urlsplit_path w (path h)) ''/'' then
              (let h1 = send_response w h 301 None;
                   h2 = send_header h1 ''Location'' (redirect_url w (path h));
                   h3 = send_header h2 ''Content-Length'' ''0''
               in case eh h3 of
                    Inl e \<Rightarrow> Inl e
                  | Inr h4 \<Rightarrow> Inr (None, h4))
            else if os_path_isfile w (os_path_join p [''index.html''])
              then send_file_head w eh h (os_path_join p [''index.html''])
            else if os_path_isfile w (os_path_join p [''index.htm''])
              then send_file_head w eh h (os_path_join p [''index.htm''])
            else list_directory w eh h p)
         else send_file_head w eh h p)"

text \<open>\<^verbatim>\<open>do_GET\<close>: the file object that \<^verbatim>\<open>send_head\<close> returns is copied to the connection.\<close>

definition copyfile :: "string \<Rightarrow> handler \<Rightarrow> handler" where
  "copyfile source h = h\<lparr>wfile := wfile h @ source\<rparr>"

definition do_GET ::
  "world \<Rightarrow> (handler \<Rightarrow> py_error + handler) \<Rightarrow> handler \<Rightarrow> py_error + handler" where
  "do_GET w eh h =
     (case send_head w eh h of
        Inl e \<Rightarrow> Inl e
      | Inr (None, h1) \<Rightarrow> Inr h1
      | Inr (Some f, h1) \<Rightarrow> Inr (copyfile f h1))"

text \<open>
  \<^verbatim>\<open>SimpleHTTPRequestHandler.__init__\<close> with \<^verbatim>\<open>directory=None\<close>, as the server calls it
  for each connection: the directory is \<^verbatim>\<open>os.getcwd()\<close> at that moment. The protocol
  version is the one \<^verbatim>\<open>test\<close> stores in the class.
\<close>

definition SimpleHTTPRequestHandler_init :: "process \<Rightarrow> handler" where
  "SimpleHTTPRequestHandler_init s =
     \<lparr>request_version = [], protocol_version = ''HTTP/1.0'', command = None, path = [],
      headers = [], directory = cwd s, headers_buffer = None, wfile = [],
      close_connection = True\<rparr>"

subsection \<open>\<^verbatim>\<open>RequestHandler\<close>, lines 10 to 14 of \<^verbatim>\<open>devserver.py\<close>\<close>

definition RequestHandler_end_headers :: "handler \<Rightarrow> py_error + handler" where
  "RequestHandler_end_headers h =
     (let h1 = send_header h ''Cross-Origin-Opener-Policy'' ''same-origin'';
          h2 = send_header h1 ''Cross-Origin-Embedder-Policy'' ''require-corp''
      in end_headers h2)"


definition RequestHandler_do_GET :: "world \<Rightarrow> handler \<Rightarrow> py_error + handler" where
  "RequestHandler_do_GET w = do_GET w RequestHandler_end_headers"


section \<open>The vocabulary of the properties\<close>





text \<open>
  A simple name is a path component that names an entry of the directory it stands in:
  not empty, without a separator, and neither \<^verbatim>\<open>.\<close> nor \<^verbatim>\<open>..\<close>. A path lies under a
  root when it is the root followed by simple names, each after a separator.
\<close>

definition simple_name :: "string \<Rightarrow> bool" where
  "simple_name word = (word \<noteq> [] \<and> CHR ''/'' \<notin> set word \<and> word \<noteq> ''.'' \<and> word \<noteq> ''..'')"

definition components :: "string \<Rightarrow> string list" where
  "components p = filter (\<lambda>x. x \<noteq> []) (split_sep (CHR ''/'') p)"

definition under_root :: "string \<Rightarrow> string \<Rightarrow> bool" where
  "under_root root p =
     (startswith p root \<and>
      (let rest = drop (length root) p
       in (rest = [] \<or> root = [] \<or> endswith root ''/'' \<or> startswith rest ''/'')
          \<and> list_all simple_name (components rest)))"



section \<open>A small world\<close>

text \<open>
  One installation, for the concrete runs below: the script is
  \<^verbatim>\<open>/srv/app/devserver.py\<close>, \<^verbatim>\<open>/srv/dist\<close> holds the file \<^verbatim>\<open>app.js\<close> and a file
  \<^verbatim>\<open>secret.key\<close> that the process may not open, and \<^verbatim>\<open>/etc/passwd\<close> exists outside it.
\<close>

definition example_fs :: "string \<Rightarrow> node option" where
  "example_fs p =
     (if p = ''/srv/app/../dist'' \<or> p = ''/srv/dist'' \<or> p = ''/srv/dist/''
      then Some (Dir [''app.js''] True True)
      else if p = ''/srv/dist/app.js'' then Some (File ''let x = 1;'' 1000 True)
      else if p = ''/srv/dist/secret.key'' then Some (File ''k'' 1000 False)
      else if p = ''/etc/passwd'' then Some (File ''root:x:0:0'' 500 True)
      else None)"

text \<open>The same tree with a \<^verbatim>\<open>dist\<close> that the process may enter but not read (mode \<^verbatim>\<open>0311\<close>).\<close>

definition example_fs_unreadable :: "string \<Rightarrow> node option" where
  "example_fs_unreadable p =
     (if p = ''/srv/app/../dist'' \<or> p = ''/srv/dist'' \<or> p = ''/srv/dist/''
      then Some (Dir [''app.js''] False True)
      else example_fs p)"

text \<open>And with a \<^verbatim>\<open>dist\<close> that it may read but not enter (mode \<^verbatim>\<open>0644\<close>).\<close>

definition example_fs_unsearchable :: "string \<Rightarrow> node option" where
  "example_fs_unsearchable p =
     (if p = ''/srv/app/../dist'' \<or> p = ''/srv/dist'' \<or> p = ''/srv/dist/''
      then Some (Dir [''app.js''] True False)
      else example_fs p)"

text \<open>And with another \<^verbatim>\<open>/etc/passwd\<close>, a file outside \<^verbatim>\<open>/srv/dist\<close>.\<close>

definition example_fs_outside :: "string \<Rightarrow> node option" where
  "example_fs_outside p =
     (if p = ''/etc/passwd'' then Some (File ''daemon:x:1:1'' 900 True)
      else example_fs p)"

definition example_responses :: "nat \<Rightarrow> (string \<times> string) option" where
  "example_responses code =
     (if code = 200 then Some (''OK'', ''Request fulfilled, document follows'')
      else if code = 301 then Some (''Moved Permanently'', ''Object moved permanently'')
      else if code = 304 then Some (''Not Modified'', ''Document has not changed since given time'')
      else if code = 404 then Some (''Not Found'', ''Nothing matches the given URI'')
      else if code = 505 then Some (''HTTP Version Not Supported'', ''Cannot fulfill request'')
      else None)"

definition example_world :: world where
  "example_world =
     \<lparr>fs = example_fs,
      canonical = normpath,
      busy_ports = {},
      wildcard_host = ''0.0.0.0'',
      unquote = (\<lambda>p. p),
      guess_type = (\<lambda>p. if endswith p ''.js'' then ''text/javascript''
                         else ''application/octet-stream''),
      responses = example_responses,
      version_string = ''SimpleHTTP/0.6 Python/3.11.10'',
      date_time_string = (\<lambda>t. case t of None \<Rightarrow> ''Wed, 04 Nov 2026 10:00:00 GMT''
                                | Some u \<Rightarrow> ''Thu, 01 Jan 1970 00:16:40 GMT''),
      error_page = (\<lambda>code message explain.
                      ''<h1>Error response</h1><p>Error code: '' @ str_nat code @ ''</p>''),
      ims_utc = (\<lambda>v. if v = ''Thu, 01 Jan 1970 01:00:00 GMT'' then Some 3600 else None),
      urlsplit_path = (\<lambda>p. takeWhile (\<lambda>c. c \<noteq> CHR ''?'') p),
      redirect_url = (\<lambda>p. p @ ''/''),
      listing_page = (\<lambda>p request_path names. join_sep ''<br>'' names),
      filesystemencoding = ''utf-8''\<rparr>"

definition example_process :: process where
  "example_process =
     \<lparr>cwd = ''/home/dev'', argv = [''devserver.py''], environ = [], sock = None, trace = []\<rparr>"

text \<open>
  The handler of a connection accepted while the working directory is \<^verbatim>\<open>/srv/dist\<close>,
  after \<^verbatim>\<open>parse_request\<close> has read a \<^verbatim>\<open>GET\<close> request line and the request headers.
\<close>

definition example_request :: "string \<Rightarrow> string \<Rightarrow> (string \<times> string) list \<Rightarrow> handler" where
  "example_request version p hs =
     (SimpleHTTPRequestHandler_init (example_process\<lparr>cwd := ''/srv/dist''\<rparr>))
       \<lparr>request_version := version, command := Some ''GET'', path := p, headers := hs\<rparr>"


section \<open>The header block\<close>











section \<open>Startup\<close>

lemma dist_path_eq:
  "dist_path file s =
     (let d = dirname (abspath (cwd s) file)
      in if d = [] \<or> endswith d ''/'' then d @ ''../dist'' else d @ ''/../dist'')"
  by (simp add: dist_path_def os_path_join_def join_step_def startswith_def endswith_def Let_def)

lemma chdir_errno_not_dir:
  "\<not> os_path_isdir w p \<Longrightarrow>
   chdir_errno w p = Some (if fs w p = None then ENOENT else ENOTDIR)"
  by (auto simp: os_path_isdir_def chdir_errno_def split: option.splits node.splits)

lemma devserver_chdir_fails:
  "chdir_errno w (dist_path file s) = Some e \<Longrightarrow>
   devserver w name file s = (Raised (OSError e), s)"
  by (simp add: devserver_def os_chdir_def)

lemma test_run:
  "test w port s =
     (if port \<in> busy_ports w
      then (Raised (OSError EADDRINUSE),
            s\<lparr>sock := Some Closed, trace := trace s @ [SocketCreated, SocketClosed]\<rparr>)
      else (Serving,
            s\<lparr>sock := Some (Listens (wildcard_host w) port),
              trace := trace s @ [SocketCreated, Bound (wildcard_host w) port, Listening,
                                  Print (serving_line (wildcard_host w) port)]\<rparr>))"
  by (simp add: test_def TCPServer_init_def server_bind_def server_close_def
      server_activate_def py_print_def Let_def)

lemma devserver_main_run:
  "chdir_errno w (dist_path file s) = None \<Longrightarrow>
   devserver w ''__main__'' file s =
     (if 8000 \<in> busy_ports w
      then (Raised (OSError EADDRINUSE),
            s\<lparr>cwd := canonical w (dist_path file s), sock := Some Closed,
              trace := trace s @ [Chdir (dist_path file s), Print banner,
                                  SocketCreated, SocketClosed]\<rparr>)
      else (Serving,
            s\<lparr>cwd := canonical w (dist_path file s),
              sock := Some (Listens (wildcard_host w) 8000),
              trace := trace s @ [Chdir (dist_path file s), Print banner,
                                  SocketCreated, Bound (wildcard_host w) 8000, Listening,
                                  Print (serving_line (wildcard_host w) 8000)]\<rparr>))"
  by (simp add: devserver_def os_chdir_def test_run py_print_def)

lemma devserver_import_run:
  "chdir_errno w (dist_path file s) = None \<Longrightarrow> name \<noteq> ''__main__'' \<Longrightarrow>
   devserver w name file s =
     (Finished, s\<lparr>cwd := canonical w (dist_path file s),
                  trace := trace s @ [Chdir (dist_path file s)]\<rparr>)"
  by (simp add: devserver_def os_chdir_def)

lemma dist_path_frame: "dist_path file (s\<lparr>argv := a, environ := e\<rparr>) = dist_path file s"
  by (simp add: dist_path_def)

lemma str_nat_8000: "str_nat 8000 = ''8000''"
  by (simp add: str_nat.simps digit_def)

lemma serving_line_example:
  "serving_line ''0.0.0.0'' 8000 = ''Serving HTTP on 0.0.0.0 port 8000 (http://0.0.0.0:8000/) ...''"
  by (simp add: serving_line_def str_nat_8000)

lemma example_dist_path:
  "dist_path ''/srv/app/devserver.py'' example_process = ''/srv/app/../dist''"
  by code_simp

lemma normpath_example: "normpath ''/srv/app/../dist'' = ''/srv/dist''"
  by code_simp

lemma example_world_fields:
  "fs example_world = example_fs" "canonical example_world = normpath"
  "busy_ports example_world = {}" "wildcard_host example_world = ''0.0.0.0''"
  by (simp_all add: example_world_def)

lemma example_process_fields:
  "cwd example_process = ''/home/dev''" "sock example_process = None"
  "trace example_process = []"
  by (simp_all add: example_process_def)

lemma example_chdir_ok: "chdir_errno example_world ''/srv/app/../dist'' = None"
  by (simp add: chdir_errno_def example_world_fields example_fs_def)

lemma example_main_run:
  "devserver example_world ''__main__'' ''/srv/app/devserver.py'' example_process =
     (Serving,
      example_process
        \<lparr>cwd := ''/srv/dist'', sock := Some (Listens ''0.0.0.0'' 8000),
         trace := [Chdir ''/srv/app/../dist'', Print banner, SocketCreated,
                   Bound ''0.0.0.0'' 8000, Listening, Print (serving_line ''0.0.0.0'' 8000)]\<rparr>)"
proof -
  have a: "chdir_errno example_world (dist_path ''/srv/app/devserver.py'' example_process) = None"
    by (simp add: example_dist_path example_chdir_ok)
  show ?thesis
    by (simp add: devserver_main_run [OF a] example_world_fields example_process_fields
        normpath_example example_dist_path)
qed

lemma example_busy_run:
  "devserver (example_world\<lparr>busy_ports := {8000}\<rparr>) ''__main__'' ''/srv/app/devserver.py''
       example_process =
     (Raised (OSError EADDRINUSE),
      example_process
        \<lparr>cwd := ''/srv/dist'', sock := Some Closed,
         trace := [Chdir ''/srv/app/../dist'', Print banner, SocketCreated, SocketClosed]\<rparr>)"
proof -
  have a: "chdir_errno (example_world\<lparr>busy_ports := {8000}\<rparr>)
      (dist_path ''/srv/app/devserver.py'' example_process) = None"
    using example_chdir_ok by (simp add: example_dist_path chdir_errno_def)
  show ?thesis
    by (simp add: devserver_main_run [OF a] example_world_fields example_process_fields
        normpath_example example_dist_path)
qed

lemma example_unreadable_run:
  "devserver (example_world\<lparr>fs := example_fs_unreadable\<rparr>) ''__main__''
       ''/srv/app/devserver.py'' example_process =
     (Serving,
      example_process
        \<lparr>cwd := ''/srv/dist'', sock := Some (Listens ''0.0.0.0'' 8000),
         trace := [Chdir ''/srv/app/../dist'', Print banner, SocketCreated,
                   Bound ''0.0.0.0'' 8000, Listening, Print (serving_line ''0.0.0.0'' 8000)]\<rparr>)"
proof -
  have a: "chdir_errno (example_world\<lparr>fs := example_fs_unreadable\<rparr>)
      (dist_path ''/srv/app/devserver.py'' example_process) = None"
    by (simp add: example_dist_path chdir_errno_def example_fs_unreadable_def)
  show ?thesis
    by (simp add: devserver_main_run [OF a] example_world_fields example_process_fields
        normpath_example example_dist_path)
qed

text \<open>
  C3. The root is \<^verbatim>\<open><program directory>/../dist\<close>, joined as text. When nothing is there, or
  something that is not a directory, \<^verbatim>\<open>os.chdir\<close> raises on line 8: the run ends with
  exit status 1 and the process is as it was, so nothing was printed, no socket was
  created and no port was bound, and the outcome is not \<open>Serving\<close>.
\<close>

theorem missing_root_fails_before_bind:
  "\<not> os_path_isdir w (dist_path file s) \<Longrightarrow>
   devserver w name file s =
     (Raised (OSError (if fs w (dist_path file s) = None then ENOENT else ENOTDIR)), s) \<and>
   exit_status (fst (devserver w name file s)) = Some 1 \<and>
   dist_path file s =
     (let d = dirname (abspath (cwd s) file)
      in if d = [] \<or> endswith d ''/'' then d @ ''../dist'' else d @ ''/../dist'')"
  using devserver_chdir_fails [OF chdir_errno_not_dir] dist_path_eq by simp

theorem missing_root_fails_before_bind_witness:
  "\<not> os_path_isdir example_world (dist_path ''/opt/app/devserver.py'' example_process) \<and>
   dist_path ''/opt/app/devserver.py'' example_process = ''/opt/app/../dist'' \<and>
   devserver example_world ''__main__'' ''/opt/app/devserver.py'' example_process =
     (Raised (OSError ENOENT), example_process) \<and>
   exit_status (fst (devserver example_world ''__main__'' ''/opt/app/devserver.py'' example_process))
     = Some 1"
proof -
  have d: "dist_path ''/opt/app/devserver.py'' example_process = ''/opt/app/../dist''"
    by code_simp
  have n: "fs example_world ''/opt/app/../dist'' = None"
    by (simp add: example_world_fields example_fs_def)
  have h: "\<not> os_path_isdir example_world (dist_path ''/opt/app/devserver.py'' example_process)"
    by (simp add: d n os_path_isdir_def)
  from missing_root_fails_before_bind [OF h, of "''__main__''"] h d n show ?thesis
    by simp
qed

text \<open>
  C6, amended. When the module runs as the main program and line 8 succeeds, the message
  of line 17 is printed before the socket is created: the effects are, in this order, the
  change of directory, the message, the socket, and then either the bind to port 8000,
  the listen and the line that \<^verbatim>\<open>test\<close> prints itself before it serves, or, when the
  port is in use, the close of the socket and the exception. The listener is bound and
  listening before the server accepts a connection.
\<close>

theorem banner_printed_before_bind:
  "chdir_errno w (dist_path file s) = None \<Longrightarrow>
   trace (snd (devserver w ''__main__'' file s)) =
     trace s @ [Chdir (dist_path file s), Print banner, SocketCreated] @
       (if 8000 \<in> busy_ports w then [SocketClosed]
        else [Bound (wildcard_host w) 8000, Listening,
              Print (serving_line (wildcard_host w) 8000)]) \<and>
   fst (devserver w ''__main__'' file s) =
     (if 8000 \<in> busy_ports w then Raised (OSError EADDRINUSE) else Serving)"
  by (simp add: devserver_main_run)

theorem banner_printed_before_bind_witness:
  "chdir_errno example_world (dist_path ''/srv/app/devserver.py'' example_process) = None \<and>
   trace (snd (devserver example_world ''__main__'' ''/srv/app/devserver.py'' example_process)) =
     [Chdir ''/srv/app/../dist'', Print banner, SocketCreated,
      Bound ''0.0.0.0'' 8000, Listening, Print (serving_line ''0.0.0.0'' 8000)] \<and>
   fst (devserver example_world ''__main__'' ''/srv/app/devserver.py'' example_process) = Serving"
proof -
  have h: "chdir_errno example_world (dist_path ''/srv/app/devserver.py'' example_process) = None"
    by (simp add: example_dist_path example_chdir_ok)
  from banner_printed_before_bind [OF h] h show ?thesis
    by (simp add: example_dist_path example_world_fields example_process_fields)
qed

text \<open>
  The claim as it is written fails: in the run of the small world the message is the
  second effect and the bind the fourth, and with port 8000 in use the message is printed
  although no listener is ever bound.
\<close>

theorem banner_precedes_bind_counterexample:
  "trace (snd (devserver example_world ''__main__'' ''/srv/app/devserver.py'' example_process)) =
     [Chdir ''/srv/app/../dist'',
      Print ''===> Open your browser at http://localhost:8000/'',
      SocketCreated,
      Bound ''0.0.0.0'' 8000,
      Listening,
      Print ''Serving HTTP on 0.0.0.0 port 8000 (http://0.0.0.0:8000/) ...''] \<and>
   devserver (example_world\<lparr>busy_ports := {8000}\<rparr>) ''__main__'' ''/srv/app/devserver.py''
       example_process =
     (Raised (OSError EADDRINUSE),
      example_process
        \<lparr>cwd := ''/srv/dist'', sock := Some Closed,
         trace := [Chdir ''/srv/app/../dist'',
                   Print ''===> Open your browser at http://localhost:8000/'',
                   SocketCreated, SocketClosed]\<rparr>)"
  by (simp add: example_main_run example_busy_run serving_line_example banner_def)

text \<open>
  C7, amended. When the root is a directory, line 8 fails exactly when the process may
  not search it (\<^verbatim>\<open>EACCES\<close>, exit status 1, nothing printed or bound); whether the
  process may read the directory is not looked at, and a root that can be entered is
  served.
\<close>

theorem unsearchable_root_fails:
  "fs w (dist_path file s) = Some (Dir es l sr) \<Longrightarrow>
   (\<not> sr \<longrightarrow> devserver w name file s = (Raised (OSError EACCES), s) \<and>
             exit_status (fst (devserver w name file s)) = Some 1) \<and>
   (sr \<and> 8000 \<notin> busy_ports w \<longrightarrow> fst (devserver w ''__main__'' file s) = Serving)"
  by (auto simp: devserver_chdir_fails devserver_main_run chdir_errno_def)

theorem unsearchable_root_fails_witness:
  "fs (example_world\<lparr>fs := example_fs_unsearchable\<rparr>)
      (dist_path ''/srv/app/devserver.py'' example_process) = Some (Dir [''app.js''] True False) \<and>
   devserver (example_world\<lparr>fs := example_fs_unsearchable\<rparr>) ''__main__''
       ''/srv/app/devserver.py'' example_process = (Raised (OSError EACCES), example_process) \<and>
   fs example_world (dist_path ''/srv/app/devserver.py'' example_process)
     = Some (Dir [''app.js''] True True) \<and>
   fst (devserver example_world ''__main__'' ''/srv/app/devserver.py'' example_process) = Serving"
proof -
  have h: "fs (example_world\<lparr>fs := example_fs_unsearchable\<rparr>)
      (dist_path ''/srv/app/devserver.py'' example_process) = Some (Dir [''app.js''] True False)"
    by (simp add: example_dist_path example_fs_unsearchable_def)
  have g: "fs example_world (dist_path ''/srv/app/devserver.py'' example_process)
     = Some (Dir [''app.js''] True True)"
    by (simp add: example_dist_path example_world_fields example_fs_def)
  from unsearchable_root_fails [OF h, of "''__main__''"]
    unsearchable_root_fails [OF g, of "''__main__''"] h g
  show ?thesis
    by (simp add: example_world_fields)
qed

text \<open>
  The claim as it is written fails: with a root that the process may enter but not
  read, the server starts.
\<close>

theorem unreadable_root_serves:
  "example_fs_unreadable ''/srv/app/../dist'' = Some (Dir [''app.js''] False True) \<and>
   devserver (example_world\<lparr>fs := example_fs_unreadable\<rparr>) ''__main__''
       ''/srv/app/devserver.py'' example_process =
     (Serving,
      example_process
        \<lparr>cwd := ''/srv/dist'', sock := Some (Listens ''0.0.0.0'' 8000),
         trace := [Chdir ''/srv/app/../dist'',
                   Print ''===> Open your browser at http://localhost:8000/'',
                   SocketCreated, Bound ''0.0.0.0'' 8000, Listening,
                   Print ''Serving HTTP on 0.0.0.0 port 8000 (http://0.0.0.0:8000/) ...'']\<rparr>)"
  by (simp add: example_unreadable_run serving_line_example banner_def example_fs_unreadable_def)

text \<open>
  C8. When port 8000 is in use, \<^verbatim>\<open>TCPServer.__init__\<close> closes the socket it has created
  and raises again: the run ends with exit status 1, and the socket of the process is
  closed (or, when line 8 has failed before, was never created).
\<close>

theorem busy_port_fails_and_closes:
  "8000 \<in> busy_ports w \<Longrightarrow>
   devserver w ''__main__'' file s =
     (case chdir_errno w (dist_path file s) of
        Some e \<Rightarrow> (Raised (OSError e), s)
      | None \<Rightarrow>
          (Raised (OSError EADDRINUSE),
           s\<lparr>cwd := canonical w (dist_path file s), sock := Some Closed,
             trace := trace s @ [Chdir (dist_path file s), Print banner,
                                 SocketCreated, SocketClosed]\<rparr>)) \<and>
   exit_status (fst (devserver w ''__main__'' file s)) = Some 1 \<and>
   (sock (snd (devserver w ''__main__'' file s)) = sock s \<or>
    sock (snd (devserver w ''__main__'' file s)) = Some Closed)"
  by (cases "chdir_errno w (dist_path file s)")
     (simp_all add: devserver_chdir_fails devserver_main_run)

theorem busy_port_fails_and_closes_witness:
  "8000 \<in> busy_ports (example_world\<lparr>busy_ports := {8000}\<rparr>) \<and>
   devserver (example_world\<lparr>busy_ports := {8000}\<rparr>) ''__main__'' ''/srv/app/devserver.py''
       example_process =
     (Raised (OSError EADDRINUSE),
      example_process
        \<lparr>cwd := ''/srv/dist'', sock := Some Closed,
         trace := [Chdir ''/srv/app/../dist'', Print banner, SocketCreated, SocketClosed]\<rparr>) \<and>
   exit_status (fst (devserver (example_world\<lparr>busy_ports := {8000}\<rparr>) ''__main__''
       ''/srv/app/devserver.py'' example_process)) = Some 1"
proof -
  let ?w = "example_world\<lparr>busy_ports := {8000}\<rparr>"
  have h: "8000 \<in> busy_ports ?w"
    by simp
  have c: "chdir_errno ?w (dist_path ''/srv/app/devserver.py'' example_process) = None"
    using example_chdir_ok by (simp add: example_dist_path chdir_errno_def)
  from busy_port_fails_and_closes [OF h, of "''/srv/app/devserver.py''" example_process] c
  show ?thesis
    by (simp add: example_dist_path example_world_fields example_process_fields normpath_example)
qed

text \<open>
  C9. The run reads neither \<^verbatim>\<open>sys.argv\<close> nor \<^verbatim>\<open>os.environ\<close>: with other arguments and
  another environment it has the same outcome and the same effects, and whenever it
  serves, it listens on port 8000 with \<^verbatim>\<open><program directory>/../dist\<close> as its working
  directory.
\<close>

theorem port_and_root_ignore_argv_environ:
  "devserver w name file (s\<lparr>argv := a, environ := e\<rparr>) =
     (fst (devserver w name file s), (snd (devserver w name file s))\<lparr>argv := a, environ := e\<rparr>) \<and>
   (fst (devserver w name file s) = Serving \<longrightarrow>
      sock (snd (devserver w name file s)) = Some (Listens (wildcard_host w) 8000) \<and>
      cwd (snd (devserver w name file s)) = canonical w (dist_path file s))"
  by (cases "chdir_errno w (dist_path file s)")
     (auto simp: devserver_def os_chdir_def test_run py_print_def dist_path_frame)

theorem port_and_root_ignore_argv_environ_witness:
  "fst (devserver example_world ''__main__'' ''/srv/app/devserver.py'' example_process) = Serving \<and>
   devserver example_world ''__main__'' ''/srv/app/devserver.py''
     (example_process\<lparr>argv := [''devserver.py'', ''9000'', ''--directory'', ''/etc''],
                       environ := [(''PORT'', ''9000'')]\<rparr>) =
     (Serving,
      example_process
        \<lparr>cwd := ''/srv/dist'',
         argv := [''devserver.py'', ''9000'', ''--directory'', ''/etc''],
         environ := [(''PORT'', ''9000'')],
         sock := Some (Listens ''0.0.0.0'' 8000),
         trace := [Chdir ''/srv/app/../dist'', Print banner, SocketCreated,
                   Bound ''0.0.0.0'' 8000, Listening, Print (serving_line ''0.0.0.0'' 8000)]\<rparr>) \<and>
   sock (snd (devserver example_world ''__main__'' ''/srv/app/devserver.py'' example_process))
     = Some (Listens ''0.0.0.0'' 8000) \<and>
   cwd (snd (devserver example_world ''__main__'' ''/srv/app/devserver.py'' example_process))
     = ''/srv/dist''"
proof -
  have h: "fst (devserver example_world ''__main__'' ''/srv/app/devserver.py'' example_process)
      = Serving"
    by (simp add: example_main_run)
  from port_and_root_ignore_argv_environ
    [of example_world "''__main__''" "''/srv/app/devserver.py''" "[(''PORT'', ''9000'')]"
        "[''devserver.py'', ''9000'', ''--directory'', ''/etc'']" example_process] h
  show ?thesis
    by (simp add: example_main_run)
qed

section \<open>The path of a request\<close>

lemma split_sep_not_Nil: "split_sep c xs \<noteq> []"
  by (induction xs) (auto split: list.splits)

lemma split_sep_append:
  "split_sep c (xs @ c # ys) = split_sep c xs @ split_sep c ys"
proof (induction xs)
  case Nil
  then show ?case by simp
next
  case (Cons x xs)
  obtain w ws where s: "split_sep c xs = w # ws"
    using split_sep_not_Nil [of c xs] by (cases "split_sep c xs") auto
  with Cons show ?case by simp
qed

lemma split_sep_without: "c \<notin> set xs \<Longrightarrow> split_sep c xs = [xs]"
  by (induction xs) auto

lemma components_append_sep:
  "components (xs @ CHR ''/'' # ys) = components xs @ components ys"
  by (simp add: components_def split_sep_append)

lemma components_Nil: "components [] = []"
  by (simp add: components_def)

lemma components_simple: "simple_name word \<Longrightarrow> components word = [word]"
  by (simp add: components_def simple_name_def split_sep_without)

lemma endswith_slash: "endswith p ''/'' \<longleftrightarrow> (\<exists>q. p = q @ ''/'')"
proof
  assume "endswith p ''/''"
  then have "length p \<ge> 1" and "drop (length p - 1) p = ''/''"
    by (simp_all add: endswith_def)
  then have "p = take (length p - 1) p @ ''/''"
    by (metis append_take_drop_id)
  then show "\<exists>q. p = q @ ''/''" ..
next
  assume "\<exists>q. p = q @ ''/''"
  then show "endswith p ''/''"
    by (auto simp: endswith_def)
qed

lemma startswith_slash: "startswith p ''/'' \<longleftrightarrow> (\<exists>q. p = CHR ''/'' # q)"
  by (cases p) (auto simp: startswith_def)

lemma under_root_iff:
  "under_root root p \<longleftrightarrow>
     (\<exists>rest. p = root @ rest \<and>
        (rest = [] \<or> root = [] \<or> endswith root ''/'' \<or> startswith rest ''/'') \<and>
        list_all simple_name (components rest))"
proof
  assume u: "under_root root p"
  then have "take (length root) p = root"
    by (simp add: under_root_def startswith_def)
  then have "p = root @ drop (length root) p"
    by (metis append_take_drop_id)
  with u show "\<exists>rest. p = root @ rest \<and>
        (rest = [] \<or> root = [] \<or> endswith root ''/'' \<or> startswith rest ''/'') \<and>
        list_all simple_name (components rest)"
    unfolding under_root_def Let_def by blast
next
  assume "\<exists>rest. p = root @ rest \<and>
        (rest = [] \<or> root = [] \<or> endswith root ''/'' \<or> startswith rest ''/'') \<and>
        list_all simple_name (components rest)"
  then show "under_root root p"
    by (auto simp: under_root_def startswith_def)
qed

lemma under_root_refl: "under_root root root"
  by (simp add: under_root_iff components_Nil)

lemma under_root_slash:
  assumes "under_root root p"
  shows "under_root root (p @ ''/'')"
proof -
  from assms obtain rest where r: "p = root @ rest"
    "rest = [] \<or> root = [] \<or> endswith root ''/'' \<or> startswith rest ''/''"
    "list_all simple_name (components rest)"
    unfolding under_root_iff by blast
  have c: "components (rest @ ''/'') = components rest"
    using components_append_sep [of rest "[]"] by (simp add: components_Nil)
  have "rest @ ''/'' = [] \<or> root = [] \<or> endswith root ''/'' \<or> startswith (rest @ ''/'') ''/''"
    using r(2) by (cases rest) (auto simp: startswith_def)
  with r c show ?thesis
    unfolding under_root_iff by (intro exI [of _ "rest @ ''/''"]) simp
qed

lemma simple_name_not_slash: "simple_name word \<Longrightarrow> \<not> startswith word ''/''"
  by (cases word) (auto simp: simple_name_def startswith_def)

lemma under_root_join:
  assumes u: "under_root root p" and s: "simple_name word"
  shows "under_root root (join_step p word)"
proof -
  from u obtain rest where r: "p = root @ rest"
    "rest = [] \<or> root = [] \<or> endswith root ''/'' \<or> startswith rest ''/''"
    "list_all simple_name (components rest)"
    unfolding under_root_iff by blast
  show ?thesis
  proof (cases "p = [] \<or> endswith p ''/''")
    case True
    then have j: "join_step p word = root @ (rest @ word)"
      using s r(1) by (simp add: join_step_def simple_name_not_slash)
    have c: "components (rest @ word) = components rest @ [word]"
    proof (cases "rest = []")
      case True
      then show ?thesis using s by (simp add: components_simple components_Nil)
    next
      case False
      with True r(1) have "endswith p ''/''" by auto
      then obtain q where q: "p = q @ ''/''" unfolding endswith_slash by blast
      with r(1) False obtain q' where "rest = q' @ ''/''"
        by (metis append_butlast_last_id last_appendR last_snoc)
      then show ?thesis
        using components_append_sep [of q' word] components_append_sep [of q' "[]"] s
        by (simp add: components_simple components_Nil)
    qed
    have "rest @ word = [] \<or> root = [] \<or> endswith root ''/'' \<or> startswith (rest @ word) ''/''"
    proof (cases "rest = []")
      case True
      with r(1) \<open>p = [] \<or> endswith p ''/''\<close> show ?thesis by auto
    next
      case False
      with r(2) show ?thesis by (cases rest) (auto simp: startswith_def)
    qed
    with c r(3) s j show ?thesis
      unfolding under_root_iff by (intro exI [of _ "rest @ word"]) simp
  next
    case False
    then have j: "join_step p word = root @ (rest @ CHR ''/'' # word)"
      using s r(1) by (simp add: join_step_def simple_name_not_slash)
    have c: "components (rest @ CHR ''/'' # word) = components rest @ [word]"
      using s by (simp add: components_append_sep components_simple)
    have "startswith (rest @ CHR ''/'' # word) ''/'' \<or> root = [] \<or> endswith root ''/''"
      using r(2) by (cases rest) (auto simp: startswith_def)
    with c r(3) s j show ?thesis
      unfolding under_root_iff by (intro exI [of _ "rest @ CHR ''/'' # word"]) auto
  qed
qed

lemma dirname_Nil_iff: "dirname word = [] \<longleftrightarrow> CHR ''/'' \<notin> set word"
proof -
  let ?head = "rev (dropWhile (\<lambda>c. c \<noteq> CHR ''/'') (rev word))"
  have h: "?head = [] \<longleftrightarrow> CHR ''/'' \<notin> set word"
    by (auto simp: dropWhile_eq_Nil_conv)
  have "rstrip_char (CHR ''/'') ?head \<noteq> []"
    if "?head \<noteq> replicate (length ?head) (CHR ''/'')"
  proof -
    from that obtain x where "x \<in> set ?head" "x \<noteq> CHR ''/''"
      by (metis replicate_eqI)
    then show ?thesis
      by (auto simp: rstrip_char_def dropWhile_eq_Nil_conv)
  qed
  with h show ?thesis
    by (auto simp: dirname_def Let_def)
qed

lemma translate_step_cases:
  "translate_step p word =
     (if simple_name word then join_step p word
      else if word = [] then join_step p [] else p)"
  by (auto simp: translate_step_def dirname_Nil_iff simple_name_def os_path_join_def)

lemma join_step_Nil: "join_step p [] = (if p = [] \<or> endswith p ''/'' then p else p @ ''/'')"
  by (simp add: join_step_def startswith_def)

lemma under_root_translate_step:
  "under_root root p \<Longrightarrow> under_root root (translate_step p word)"
  by (simp add: translate_step_cases under_root_join join_step_Nil under_root_slash)

lemma under_root_foldl:
  "under_root root p \<Longrightarrow> under_root root (foldl translate_step p ws)"
  by (induction ws arbitrary: p) (simp_all add: under_root_translate_step)

lemma translate_path_under_directory:
  "under_root (directory h) (translate_path w h p)"
  by (simp add: translate_path_def Let_def under_root_foldl under_root_refl under_root_slash)

lemma translate_path_fs: "translate_path (w\<lparr>fs := f\<rparr>) h p = translate_path w h p"
  by (simp add: translate_path_def)

lemma short_message_fs: "short_message (w\<lparr>fs := f\<rparr>) code = short_message w code"
  by (simp add: short_message_def)

lemma send_response_fs: "send_response (w\<lparr>fs := f\<rparr>) h code m = send_response w h code m"
  by (simp add: send_response_def send_response_only_def short_message_fs
      cong: option.case_cong)

lemma send_error_fs: "send_error (w\<lparr>fs := f\<rparr>) eh h code m e = send_error w eh h code m e"
  by (simp add: send_error_def send_response_fs
      Let_def cong: if_cong option.case_cong sum.case_cong prod.case_cong)

lemma not_modified_fs: "not_modified (w\<lparr>fs := f\<rparr>) h t = not_modified w h t"
  by (simp add: not_modified_def cong: option.case_cong)

lemma send_file_head_fs:
  "f q = fs w q \<Longrightarrow> send_file_head (w\<lparr>fs := f\<rparr>) eh h q = send_file_head w eh h q"
  by (simp add: send_file_head_def open_rb_def send_error_fs send_response_fs not_modified_fs
      Let_def cong: if_cong option.case_cong sum.case_cong prod.case_cong)

lemma list_directory_fs:
  "f q = fs w q \<Longrightarrow> list_directory (w\<lparr>fs := f\<rparr>) eh h q = list_directory w eh h q"
  by (simp add: list_directory_def os_listdir_def send_error_fs send_response_fs
      Let_def cong: if_cong option.case_cong sum.case_cong prod.case_cong)

lemma simple_name_index: "simple_name ''index.html''" "simple_name ''index.htm''"
  by (simp_all add: simple_name_def)

lemma send_head_fs:
  assumes a: "\<forall>q. under_root (directory h) q \<longrightarrow> f q = fs w q"
  shows "send_head (w\<lparr>fs := f\<rparr>) eh h = send_head w eh h"
proof -
  let ?p = "translate_path w h (path h)"
  have u: "under_root (directory h) ?p"
    by (rule translate_path_under_directory)
  have p: "f ?p = fs w ?p"
    using a u by blast
  have i: "f (os_path_join ?p [''index.html'']) = fs w (os_path_join ?p [''index.html''])"
    "f (os_path_join ?p [''index.htm'']) = fs w (os_path_join ?p [''index.htm''])"
    using a u by (simp_all add: os_path_join_def under_root_join simple_name_index)
  show ?thesis
    unfolding send_head_def translate_path_fs Let_def
    by (simp add: os_path_isdir_def os_path_isfile_def p i send_response_fs
        send_file_head_fs list_directory_fs)
qed

lemma do_GET_fs:
  "\<forall>q. under_root (directory h) q \<longrightarrow> f q = fs w q \<Longrightarrow>
   do_GET (w\<lparr>fs := f\<rparr>) eh h = do_GET w eh h"
  by (simp add: do_GET_def send_head_fs)

text \<open>
  C2. Whatever the request path is, \<^verbatim>\<open>translate_path\<close> returns the handler's directory
  followed by simple names, each after a separator: a \<^verbatim>\<open>..\<close> of the request never
  survives into the path, so the path lies under the directory. And the answer to a
  \<^verbatim>\<open>GET\<close> depends on the file system only at paths under the directory: two file systems
  that agree there give the same response, so nothing of a file elsewhere is returned.
  (A path is the name the kernel is asked for; what the kernel finds behind a symbolic
  link inside the directory belongs to that name.)
\<close>

theorem traversal_stays_under_root:
  "under_root (directory h) (translate_path w h p) \<and>
   ((\<forall>q. under_root (directory h) q \<longrightarrow> f q = fs w q) \<longrightarrow>
      RequestHandler_do_GET (w\<lparr>fs := f\<rparr>) h = RequestHandler_do_GET w h)"
  by (simp add: translate_path_under_directory RequestHandler_do_GET_def do_GET_fs)

lemma example_request_fields:
  "directory (example_request v p hs) = ''/srv/dist''"
  "path (example_request v p hs) = p"
  "request_version (example_request v p hs) = v"
  "protocol_version (example_request v p hs) = ''HTTP/1.0''"
  "command (example_request v p hs) = Some ''GET''"
  "headers (example_request v p hs) = hs"
  "headers_buffer (example_request v p hs) = None"
  "wfile (example_request v p hs) = []"
  "pending (example_request v p hs) = []"
  by (simp_all add: example_request_def SimpleHTTPRequestHandler_init_def pending_def)

theorem traversal_stays_under_root_witness:
  "translate_path example_world (example_request ''HTTP/1.1'' ''/../../etc/passwd'' [])
     ''/../../etc/passwd'' = ''/srv/dist/etc/passwd'' \<and>
   under_root ''/srv/dist'' ''/srv/dist/etc/passwd'' \<and>
   \<not> under_root ''/srv/dist'' ''/etc/passwd'' \<and>
   example_fs_outside ''/etc/passwd'' \<noteq> example_fs ''/etc/passwd'' \<and>
   RequestHandler_do_GET (example_world\<lparr>fs := example_fs_outside\<rparr>)
     (example_request ''HTTP/1.1'' ''/../../etc/passwd'' [])
   = RequestHandler_do_GET example_world (example_request ''HTTP/1.1'' ''/../../etc/passwd'' [])"
proof -
  let ?h = "example_request ''HTTP/1.1'' ''/../../etc/passwd'' []"
  have t: "translate_path example_world ?h ''/../../etc/passwd'' = ''/srv/dist/etc/passwd''"
    by code_simp
  have n: "\<not> under_root ''/srv/dist'' ''/etc/passwd''"
    by (simp add: under_root_def startswith_def)
  have d: "example_fs_outside ''/etc/passwd'' \<noteq> example_fs ''/etc/passwd''"
    by (simp add: example_fs_outside_def example_fs_def)
  have a: "\<forall>q. under_root (directory ?h) q \<longrightarrow> example_fs_outside q = fs example_world q"
    using n by (auto simp: example_request_fields example_fs_outside_def example_world_fields)
  from traversal_stays_under_root [of ?h example_world "''/../../etc/passwd''" example_fs_outside] a
  show ?thesis
    using t n d by (simp add: example_request_fields)
qed

section \<open>The response to a request\<close>





lemma pending_update [simp]:
  "pending (h\<lparr>headers_buffer := Some b\<rparr>) = b"
  "pending (h\<lparr>close_connection := c\<rparr>) = pending h"
  "pending (h\<lparr>wfile := x\<rparr>) = pending h"
  by (simp_all add: pending_def)






























text \<open>
  C10. Lines 6 to 8 are outside the \<^verbatim>\<open>__main__\<close> guard: under any other module name the
  run changes the working directory of the process and ends, or raises when the root
  cannot be entered (\<^verbatim>\<open>ENOENT\<close> when it is missing), and it prints and binds nothing. The
  handler holds no root of its own choosing: its directory is the working directory of
  the process at the moment the handler is constructed, and every path it serves lies
  under that directory.
\<close>

theorem chdir_at_import_and_directory_from_cwd:
  "(name \<noteq> ''__main__'' \<longrightarrow>
      devserver w name file s =
        (case chdir_errno w (dist_path file s) of
           Some e \<Rightarrow> (Raised (OSError e), s)
         | None \<Rightarrow> (Finished, s\<lparr>cwd := canonical w (dist_path file s),
                                 trace := trace s @ [Chdir (dist_path file s)]\<rparr>))) \<and>
   (fs w (dist_path file s) = None \<longrightarrow> devserver w name file s = (Raised (OSError ENOENT), s)) \<and>
   directory (SimpleHTTPRequestHandler_init s1) = cwd s1 \<and>
   under_root (cwd s1)
     (translate_path w ((SimpleHTTPRequestHandler_init s1)
        \<lparr>request_version := v, command := c, path := p, headers := hs\<rparr>) p)"
proof (intro conjI impI)
  assume "name \<noteq> ''__main__''"
  then show "devserver w name file s =
        (case chdir_errno w (dist_path file s) of
           Some e \<Rightarrow> (Raised (OSError e), s)
         | None \<Rightarrow> (Finished, s\<lparr>cwd := canonical w (dist_path file s),
                                 trace := trace s @ [Chdir (dist_path file s)]\<rparr>))"
    by (cases "chdir_errno w (dist_path file s)")
       (simp_all add: devserver_chdir_fails devserver_import_run)
next
  assume "fs w (dist_path file s) = None"
  then have "chdir_errno w (dist_path file s) = Some ENOENT"
    by (simp add: chdir_errno_def)
  then show "devserver w name file s = (Raised (OSError ENOENT), s)"
    by (rule devserver_chdir_fails)
next
  show "directory (SimpleHTTPRequestHandler_init s1) = cwd s1"
    by (simp add: SimpleHTTPRequestHandler_init_def)
next
  let ?h = "(SimpleHTTPRequestHandler_init s1)
        \<lparr>request_version := v, command := c, path := p, headers := hs\<rparr>"
  have "directory ?h = cwd s1"
    by (simp add: SimpleHTTPRequestHandler_init_def)
  with translate_path_under_directory [of ?h w p]
  show "under_root (cwd s1) (translate_path w ?h p)"
    by simp
qed

theorem chdir_at_import_and_directory_from_cwd_witness:
  "devserver example_world ''devserver'' ''/srv/app/devserver.py'' example_process =
     (Finished, example_process\<lparr>cwd := ''/srv/dist'', trace := [Chdir ''/srv/app/../dist'']\<rparr>) \<and>
   fs example_world (dist_path ''/opt/app/devserver.py'' example_process) = None \<and>
   devserver example_world ''devserver'' ''/opt/app/devserver.py'' example_process =
     (Raised (OSError ENOENT), example_process) \<and>
   directory (SimpleHTTPRequestHandler_init (example_process\<lparr>cwd := ''/tmp''\<rparr>)) = ''/tmp''"
proof -
  have n: "''devserver'' \<noteq> ''__main__''"
    by simp
  have d: "dist_path ''/opt/app/devserver.py'' example_process = ''/opt/app/../dist''"
    by code_simp
  have m: "fs example_world (dist_path ''/opt/app/devserver.py'' example_process) = None"
    by (simp add: d example_world_fields example_fs_def)
  note t = chdir_at_import_and_directory_from_cwd
  from t [of "''devserver''" example_world "''/srv/app/devserver.py''" example_process] n
  have a: "devserver example_world ''devserver'' ''/srv/app/devserver.py'' example_process =
     (Finished, example_process\<lparr>cwd := ''/srv/dist'', trace := [Chdir ''/srv/app/../dist'']\<rparr>)"
    by (simp add: example_dist_path example_chdir_ok example_world_fields example_process_fields
        normpath_example)
  from t [of "''devserver''" example_world "''/opt/app/devserver.py''" example_process] m
  have b: "devserver example_world ''devserver'' ''/opt/app/devserver.py'' example_process =
     (Raised (OSError ENOENT), example_process)"
    by blast
  from t [where ?s1.0 = "example_process\<lparr>cwd := ''/tmp''\<rparr>"]
  have c: "directory (SimpleHTTPRequestHandler_init (example_process\<lparr>cwd := ''/tmp''\<rparr>)) = ''/tmp''"
    by simp
  from a m b c show ?thesis by (intro conjI)
qed

end
